theory Spec2Isabelle
  imports Complex_Main "HOL-Library.Sublist"
begin

section \<open>Python values and exceptions\<close>

text \<open>
  The constructor of \<^verbatim>\<open>RangeShifter\<close> (rangeshifter.py) is dynamically typed and tests the
  types of its arguments itself, so an argument is a tagged Python value. The language is
  Python 3: an ordering comparison between \<^verbatim>\<open>None\<close> (or a \<^verbatim>\<open>str\<close>) and a float raises
  \<^verbatim>\<open>TypeError\<close>.
\<close>

subsection \<open>Floats\<close>

text \<open>
  A Python float is an IEEE 754 binary64 value: a finite double \<open>Fin x\<close>, where \<open>x\<close> is the
  real number it denotes, an infinity or NaN. The two zeros are one value here: no
  operation this program applies tells them apart.
\<close>

datatype pyfloat = Fin real | PosInf | NegInf | NaN

text \<open>Rounding to the nearest integer, a tie to the even one.\<close>

definition round_half_even :: "real \<Rightarrow> int" where
  "round_half_even q =
     (if q - of_int \<lfloor>q\<rfloor> < 1 / 2 then \<lfloor>q\<rfloor>
      else if q - of_int \<lfloor>q\<rfloor> > 1 / 2 then \<lfloor>q\<rfloor> + 1
      else if even \<lfloor>q\<rfloor> then \<lfloor>q\<rfloor> else \<lfloor>q\<rfloor> + 1)"

text \<open>
  The result of a float operation whose exact value is \<open>x\<close>: the nearest double, a tie to
  the one with the even significand. A double has 53 significant bits and a binary
  exponent of at least \<open>-1022\<close>, so the doubles around \<open>x\<close> are the multiples of
  \<open>ulp\<close>; a result of magnitude \<open>2\<^sup>1\<^sup>0\<^sup>2\<^sup>4\<close> or more is an infinity.
\<close>

definition double_overflow :: real where
  "double_overflow = 2 ^ 1024"

definition round_double :: "real \<Rightarrow> pyfloat" where
  "round_double x =
     (if x = 0 then Fin 0
      else let ulp = 2 powr of_int (max \<lfloor>log 2 \<bar>x\<bar>\<rfloor> (- 1022) - 52);
               y = of_int (round_half_even (x / ulp)) * ulp
           in if double_overflow \<le> \<bar>y\<bar> then (if 0 < x then PosInf else NegInf) else Fin y)"


fun float_neg :: "pyfloat \<Rightarrow> pyfloat" where
  "float_neg (Fin x) = Fin (- x)"
| "float_neg PosInf = NegInf"
| "float_neg NegInf = PosInf"
| "float_neg NaN = NaN"

text \<open>\<^verbatim>\<open>f + g\<close> and \<^verbatim>\<open>f - g\<close> on floats.\<close>

fun float_add :: "pyfloat \<Rightarrow> pyfloat \<Rightarrow> pyfloat" where
  "float_add NaN g = NaN"
| "float_add f NaN = NaN"
| "float_add (Fin x) (Fin y) = round_double (x + y)"
| "float_add PosInf NegInf = NaN"
| "float_add NegInf PosInf = NaN"
| "float_add PosInf g = PosInf"
| "float_add NegInf g = NegInf"
| "float_add (Fin x) g = g"

definition float_sub :: "pyfloat \<Rightarrow> pyfloat \<Rightarrow> pyfloat" where
  "float_sub f g = float_add f (float_neg g)"

text \<open>
  \<^verbatim>\<open>f > r\<close>, \<^verbatim>\<open>f < r\<close> against a finite number and \<^verbatim>\<open>f == g\<close>: every comparison with NaN
  is false.
\<close>

fun float_gt :: "pyfloat \<Rightarrow> real \<Rightarrow> bool" where
  "float_gt (Fin x) r = (x > r)"
| "float_gt PosInf r = True"
| "float_gt NegInf r = False"
| "float_gt NaN r = False"

fun float_lt :: "pyfloat \<Rightarrow> real \<Rightarrow> bool" where
  "float_lt (Fin x) r = (x < r)"
| "float_lt PosInf r = False"
| "float_lt NegInf r = True"
| "float_lt NaN r = False"

fun float_eq :: "pyfloat \<Rightarrow> pyfloat \<Rightarrow> bool" where
  "float_eq (Fin x) (Fin y) = (x = y)"
| "float_eq PosInf PosInf = True"
| "float_eq NegInf NegInf = True"
| "float_eq f g = False"

subsection \<open>Values and exceptions\<close>

datatype pyval = PNone | PBool bool | PInt int | PFloat pyfloat | PStr string

datatype error =
    TypeError string
  | ValueError string
  | AttributeError string
  | NameError string
  | IndexError string
  | OverflowError string
  | FileNotFoundError string

text \<open>The spec's class InvalidArgument: a type or range violation of a constructor input.\<close>

fun InvalidArgument :: "error \<Rightarrow> bool" where
  "InvalidArgument (TypeError m) = True"
| "InvalidArgument (ValueError m) = True"
| "InvalidArgument e = False"

fun type_name :: "pyval \<Rightarrow> string" where
  "type_name PNone = ''NoneType''"
| "type_name (PBool b) = ''bool''"
| "type_name (PInt n) = ''int''"
| "type_name (PFloat x) = ''float''"
| "type_name (PStr s) = ''str''"

text \<open>
  The number a value is compared by; \<^verbatim>\<open>bool\<close> is a subclass of \<^verbatim>\<open>int\<close>, and Python
  compares an int with a float by their exact values, so an int stands for itself here,
  whatever its size.
\<close>

fun num_of :: "pyval \<Rightarrow> pyfloat option" where
  "num_of (PBool b) = Some (Fin (if b then 1 else 0))"
| "num_of (PInt n) = Some (Fin (of_int n))"
| "num_of (PFloat f) = Some f"
| "num_of v = None"

text \<open>\<^verbatim>\<open>isinstance(v, (float, int))\<close> and \<^verbatim>\<open>isinstance(v, str)\<close>.\<close>

fun isinstance_float_int :: "pyval \<Rightarrow> bool" where
  "isinstance_float_int (PBool b) = True"
| "isinstance_float_int (PInt n) = True"
| "isinstance_float_int (PFloat x) = True"
| "isinstance_float_int v = False"

fun isinstance_str :: "pyval \<Rightarrow> bool" where
  "isinstance_str (PStr s) = True"
| "isinstance_str v = False"

text \<open>\<^verbatim>\<open>v == w\<close>: numbers compare by value across int, float and bool.\<close>

fun py_eq :: "pyval \<Rightarrow> pyval \<Rightarrow> bool" where
  "py_eq PNone PNone = True"
| "py_eq (PStr s) (PStr t) = (s = t)"
| "py_eq v w = (case (num_of v, num_of w) of (Some f, Some g) \<Rightarrow> float_eq f g | _ \<Rightarrow> False)"

text \<open>\<^verbatim>\<open>v in [..]\<close> on a list literal.\<close>

definition py_in :: "pyval \<Rightarrow> pyval list \<Rightarrow> bool" where
  "py_in v xs = list_ex (py_eq v) xs"

text \<open>A name between apostrophes, as the interpreter's messages write it.\<close>

definition quoted :: "string \<Rightarrow> string" where
  "quoted s = [CHR 0x27] @ s @ [CHR 0x27]"

text \<open>\<^verbatim>\<open>v > r\<close> and \<^verbatim>\<open>v < r\<close> against a float literal.\<close>

definition py_gt :: "pyval \<Rightarrow> real \<Rightarrow> error + bool" where
  "py_gt v r = (case num_of v of
       Some f \<Rightarrow> Inr (float_gt f r)
     | None \<Rightarrow> Inl (TypeError
         (quoted ''>'' @ '' not supported between instances of '' @ quoted (type_name v)
            @ '' and '' @ quoted ''float'')))"

definition py_lt :: "pyval \<Rightarrow> real \<Rightarrow> error + bool" where
  "py_lt v r = (case num_of v of
       Some f \<Rightarrow> Inr (float_lt f r)
     | None \<Rightarrow> Inl (TypeError
         (quoted ''<'' @ '' not supported between instances of '' @ quoted (type_name v)
            @ '' and '' @ quoted ''float'')))"

text \<open>
  \<^verbatim>\<open>a or b\<close> on conditions: the right operand is evaluated, and can raise, only when the
  left one is false.
\<close>

definition py_or :: "error + bool \<Rightarrow> error + bool \<Rightarrow> error + bool" where
  "py_or a b = (case a of Inl e \<Rightarrow> Inl e | Inr c \<Rightarrow> if c then Inr True else b)"

text \<open>Truth value of an object in \<^verbatim>\<open>if v:\<close>.\<close>

fun py_truthy :: "pyval \<Rightarrow> bool" where
  "py_truthy PNone = False"
| "py_truthy (PBool b) = b"
| "py_truthy (PInt n) = (n \<noteq> 0)"
| "py_truthy (PFloat f) = (f \<noteq> Fin 0)"
| "py_truthy (PStr s) = (s \<noteq> [])"

text \<open>\<^verbatim>\<open>str(n)\<close> of an int, in decimal.\<close>

fun str_nat :: "nat \<Rightarrow> string" where
  "str_nat n = (if n < 10 then [''0123456789'' ! n]
                else str_nat (n div 10) @ [''0123456789'' ! (n mod 10)])"

declare str_nat.simps [simp del]

definition str_int :: "int \<Rightarrow> string" where
  "str_int i = (if i < 0 then ''-'' @ str_nat (nat (- i)) else str_nat (nat i))"

text \<open>
  \<^verbatim>\<open>str(v)\<close>. The text of a finite float (Python's shortest round-trip repr) is a
  parameter \<open>float_repr\<close> of the model.
\<close>

fun py_str :: "(real \<Rightarrow> string) \<Rightarrow> pyval \<Rightarrow> string" where
  "py_str float_repr PNone = ''None''"
| "py_str float_repr (PBool b) = (if b then ''True'' else ''False'')"
| "py_str float_repr (PInt n) = str_int n"
| "py_str float_repr (PFloat (Fin x)) = float_repr x"
| "py_str float_repr (PFloat PosInf) = ''inf''"
| "py_str float_repr (PFloat NegInf) = ''-inf''"
| "py_str float_repr (PFloat NaN) = ''nan''"
| "py_str float_repr (PStr s) = s"

text \<open>
  Python's repr on the floats whose value is an integer below \<open>10\<^sup>1\<^sup>6\<close>: the digits, then
  \<^verbatim>\<open>.0\<close>. The examples use it for \<open>float_repr\<close>; all their floats are of this kind.
\<close>

definition repr_integral :: "real \<Rightarrow> string" where
  "repr_integral x = str_int \<lfloor>x\<rfloor> @ ''.0''"

text \<open>\<^verbatim>\<open>s[-4:]\<close> and \<^verbatim>\<open>s[:-4]\<close> on a str; a shorter string gives itself and the empty string.\<close>

definition last4 :: "string \<Rightarrow> string" where
  "last4 s = drop (length s - 4) s"

definition but_last4 :: "string \<Rightarrow> string" where
  "but_last4 s = take (length s - 4) s"

section \<open>The decoded RT Ion Plan\<close>

text \<open>
  The attributes of the pydicom datasets that \<^verbatim>\<open>add\<close> reads or writes. An attribute that
  a dataset read from a file may lack, and whose read then raises \<^verbatim>\<open>AttributeError\<close>, is
  an option.
\<close>

record rs_item =
  RangeShifterNumber :: int
  RangeShifterID :: string
  RangeShifterType :: string

record rs_setting =
  RangeShifterSetting :: string
  IsocenterToRangeShifterDistance :: pyfloat
  RangeShifterWaterEquivalentThickness :: pyfloat
  ReferencedRangeShifterNumber :: int

record control_point =
  SnoutPosition :: "pyval option"
  RangeShifterSettingsSequence :: "rs_setting list option"

record ion_beam =
  NumberOfRangeShifters :: "int option"
  RangeShifterSequence :: "rs_item list option"
  IonControlPointSequence :: "control_point list option"

record Dataset =
  RTPlanLabel :: "string option"
  SOPInstanceUID :: "string option"
  IonBeamSequence :: "ion_beam list option"

section \<open>The editor object\<close>

text \<open>
  The instance attributes of \<^verbatim>\<open>RangeShifter\<close>. \<^verbatim>\<open>RangeShifterID\<close>,
  \<^verbatim>\<open>IsocentertoRangeShifterDistance\<close> and \<^verbatim>\<open>ds\<close> are assigned on some paths only:
  \<open>None\<close> is the attribute that was never assigned.
\<close>

record RangeShifter =
  self_RangeShifterID :: "string option"
  self_outfile :: string
  self_IsocentertoRangeShifterDistance :: "pyfloat option"
  self_infile :: string
  self_RTPlanLabel :: string
  self_SnoutPosition :: pyval
  self_add_rangeshifter :: bool
  self_RangeShifterNumber :: int
  self_ReferencedRangeShifterNumber :: int
  self_RangeShifterType :: string
  self_RangeShifterSetting :: string
  self_NumberOfRangeShifters :: int
  self_RangeShifterWaterEquivalentThickness :: pyfloat
  self_ds :: "Dataset option"

subsection \<open>\<^verbatim>\<open>__init__\<close>\<close>

text \<open>Lines 32-35: the input path.\<close>

definition check_infile :: "pyval \<Rightarrow> error + string" where
  "check_infile infile = (case infile of
       PStr s \<Rightarrow> if \<not> last4 s = ''.dcm''
                 then Inl (ValueError ''infile must include .dcm file extension'')
                 else Inr s
     | _ \<Rightarrow> Inl (TypeError ''infile must be a string''))"

text \<open>Lines 37-42: the thickness; the result is the attribute \<^verbatim>\<open>RangeShifterID\<close>.\<close>

definition check_range_shifter ::
  "(real \<Rightarrow> string) \<Rightarrow> pyval \<Rightarrow> bool \<Rightarrow> error + string option" where
  "check_range_shifter float_repr range_shifter add_rangeshifter =
     (if py_in range_shifter [PInt 2, PInt 3, PInt 5]
        then Inr (Some (''RS='' @ py_str float_repr range_shifter @ ''cm''))
      else if add_rangeshifter \<and> \<not> py_in range_shifter [PInt 2, PInt 3, PInt 5]
        then Inl (ValueError ''range_shifter must be int, either: 2, 3 or 5'')
      else if \<not> add_rangeshifter \<and> \<not> py_in range_shifter [PInt 2, PInt 3, PInt 5, PNone]
        then Inl (ValueError ''range_shifter must be None or int (either: 2, 3 or 5)'')
      else Inr None)"

text \<open>Lines 44-45: the plan label.\<close>

definition check_plan_id :: "pyval \<Rightarrow> error + string" where
  "check_plan_id plan_id = (case plan_id of
       PStr s \<Rightarrow> Inr s
     | _ \<Rightarrow> Inl (TypeError ''plan_id must be a string''))"

text \<open>
  Lines 47-52: the snout position. The conditions of the second and third branch compare
  the argument with float literals before anything else, so they raise where the comparison
  does.
\<close>

definition check_snout_position :: "pyval \<Rightarrow> bool \<Rightarrow> error + unit" where
  "check_snout_position snout_position add_rangeshifter =
     (if add_rangeshifter \<and> \<not> isinstance_float_int snout_position
        then Inl (TypeError ''snout_position must be float or int'')
      else if add_rangeshifter then
        (case py_or (py_gt snout_position 421.0) (py_lt snout_position 20.0) of
           Inl e \<Rightarrow> Inl e
         | Inr c \<Rightarrow>
             if c then Inl (ValueError ''snout_position must be between 20.0 and 421.0'')
             else Inr ())
      else
        (case py_or (py_or (py_gt snout_position 421.0) (py_lt snout_position 20.0))
                    (Inr (py_eq snout_position PNone)) of
           Inl e \<Rightarrow> Inl e
         | Inr c \<Rightarrow>
             if c then Inl (ValueError ''snout_position must be None or between 20.0 and 421.0'')
             else Inr ()))"

text \<open>Lines 54-59: the output path.\<close>

definition make_outfile ::
  "(real \<Rightarrow> string) \<Rightarrow> string \<Rightarrow> pyval \<Rightarrow> pyval \<Rightarrow> pyval \<Rightarrow> error + string" where
  "make_outfile float_repr infile range_shifter snout_position outfile = (case outfile of
       PNone \<Rightarrow> Inr (but_last4 infile @ ''_RS'' @ py_str float_repr range_shifter
                      @ ''_Snout'' @ py_str float_repr snout_position @ ''.dcm'')
     | PStr s \<Rightarrow> Inr (if \<not> last4 s = ''.dcm'' then s @ ''.dcm'' else s)
     | _ \<Rightarrow> Inl (TypeError (quoted (type_name outfile) @ '' object is not subscriptable'')))"

text \<open>
  The right operand of \<^verbatim>\<open>float + v\<close>: an int is converted to the nearest double first,
  and one too large for a double raises \<^verbatim>\<open>OverflowError\<close>.
\<close>

definition to_float :: "pyval \<Rightarrow> error + pyfloat" where
  "to_float v = (case v of
       PBool b \<Rightarrow> Inr (Fin (if b then 1 else 0))
     | PInt n \<Rightarrow> (case round_double (of_int n) of
                    Fin x \<Rightarrow> Inr (Fin x)
                  | _ \<Rightarrow> Inl (OverflowError ''int too large to convert to float''))
     | PFloat f \<Rightarrow> Inr f
     | _ \<Rightarrow> Inl (TypeError
         (''unsupported operand type(s) for +: '' @ quoted ''float'' @ '' and ''
            @ quoted (type_name v))))"

text \<open>
  Lines 62-65: the derived distance, assigned only when the snout position is truthy. The
  difference of the two radii is taken first, then the snout position is added; each
  operation rounds its result to a double.
\<close>

definition max_rs_rad :: pyfloat where
  "max_rs_rad = Fin 461.0"

definition max_snout_rad :: pyfloat where
  "max_snout_rad = Fin 421.0"

definition make_distance :: "pyval \<Rightarrow> error + pyfloat option" where
  "make_distance snout_position =
     (if py_truthy snout_position then
        (case to_float snout_position of
           Inl e \<Rightarrow> Inl e
         | Inr f \<Rightarrow> Inr (Some (float_add (float_sub max_rs_rad max_snout_rad) f)))
      else Inr None)"

definition init ::
  "(real \<Rightarrow> string) \<Rightarrow> pyval \<Rightarrow> pyval \<Rightarrow> pyval \<Rightarrow> pyval \<Rightarrow> pyval \<Rightarrow> bool
     \<Rightarrow> error + RangeShifter" where
  "init float_repr infile plan_id snout_position range_shifter outfile add_rangeshifter =
     (case check_infile infile of Inl e \<Rightarrow> Inl e | Inr infile_s \<Rightarrow>
     (case check_range_shifter float_repr range_shifter add_rangeshifter of
        Inl e \<Rightarrow> Inl e | Inr rsid \<Rightarrow>
     (case check_plan_id plan_id of Inl e \<Rightarrow> Inl e | Inr label \<Rightarrow>
     (case check_snout_position snout_position add_rangeshifter of
        Inl e \<Rightarrow> Inl e | Inr u \<Rightarrow>
     (case make_outfile float_repr infile_s range_shifter snout_position outfile of
        Inl e \<Rightarrow> Inl e | Inr outfile_s \<Rightarrow>
     (case make_distance snout_position of Inl e \<Rightarrow> Inl e | Inr isodist \<Rightarrow>
        Inr \<lparr> self_RangeShifterID = rsid,
              self_outfile = outfile_s,
              self_IsocentertoRangeShifterDistance = isodist,
              self_infile = infile_s,
              self_RTPlanLabel = label,
              self_SnoutPosition = snout_position,
              self_add_rangeshifter = add_rangeshifter,
              self_RangeShifterNumber = 1,
              self_ReferencedRangeShifterNumber = 1,
              self_RangeShifterType = ''BINARY'',
              self_RangeShifterSetting = ''IN'',
              self_NumberOfRangeShifters = 1,
              self_RangeShifterWaterEquivalentThickness = Fin 23.0,
              self_ds = None \<rparr>))))))"

section \<open>The file system and the console\<close>

text \<open>
  \<^verbatim>\<open>dcmread\<close> and \<^verbatim>\<open>save_as\<close> belong to pydicom: a path holds a decoded document or
  nothing, and \<^verbatim>\<open>print\<close> appends a line to the console.
\<close>

record world =
  files :: "string \<rightharpoonup> Dataset"
  stdout :: "string list"

definition dcmread :: "world \<Rightarrow> string \<Rightarrow> error + Dataset" where
  "dcmread w path = (case files w path of
       None \<Rightarrow> Inl (FileNotFoundError path)
     | Some ds \<Rightarrow> Inr ds)"

subsection \<open>\<^verbatim>\<open>add\<close>\<close>

text \<open>A \<^verbatim>\<open>for\<close> loop over a sequence whose body updates the item in place or raises.\<close>

fun for_each :: "('a \<Rightarrow> error + 'a) \<Rightarrow> 'a list \<Rightarrow> error + 'a list" where
  "for_each body [] = Inr []"
| "for_each body (x # xs) = (case body x of
       Inl e \<Rightarrow> Inl e
     | Inr y \<Rightarrow> (case for_each body xs of Inl e \<Rightarrow> Inl e | Inr ys \<Rightarrow> Inr (y # ys)))"

text \<open>Reading an instance attribute that was never assigned.\<close>

definition no_attribute :: "string \<Rightarrow> string \<Rightarrow> error" where
  "no_attribute cls name =
     AttributeError (quoted cls @ '' object has no attribute '' @ quoted name)"

text \<open>Lines 89-92: the new device block.\<close>

definition new_rs_seq :: "RangeShifter \<Rightarrow> error + rs_item" where
  "new_rs_seq self = (case self_RangeShifterID self of
       None \<Rightarrow> Inl (no_attribute ''RangeShifter'' ''RangeShifterID'')
     | Some rsid \<Rightarrow> Inr \<lparr> RangeShifterNumber = self_RangeShifterNumber self,
                          RangeShifterID = rsid,
                          RangeShifterType = self_RangeShifterType self \<rparr>)"

text \<open>Lines 95-99: the new settings block.\<close>

definition new_rs_set_seq :: "RangeShifter \<Rightarrow> error + rs_setting" where
  "new_rs_set_seq self = (case self_IsocentertoRangeShifterDistance self of
       None \<Rightarrow> Inl (no_attribute ''RangeShifter'' ''IsocentertoRangeShifterDistance'')
     | Some d \<Rightarrow> Inr \<lparr> RangeShifterSetting = self_RangeShifterSetting self,
                       IsocenterToRangeShifterDistance = d,
                       RangeShifterWaterEquivalentThickness =
                         self_RangeShifterWaterEquivalentThickness self,
                       ReferencedRangeShifterNumber = self_ReferencedRangeShifterNumber self \<rparr>)"

text \<open>
  Lines 103-106: the loop body of the adding branch. Every beam receives the same device
  block and the same settings block.
\<close>

definition add_beam :: "RangeShifter \<Rightarrow> rs_item \<Rightarrow> rs_setting \<Rightarrow> ion_beam \<Rightarrow> error + ion_beam" where
  "add_beam self rs_seq rs_set_seq ion_beam_seq =
     (case IonControlPointSequence ion_beam_seq of
        None \<Rightarrow> Inl (no_attribute ''Dataset'' ''IonControlPointSequence'')
      | Some [] \<Rightarrow> Inl (IndexError ''list index out of range'')
      | Some (cp # cps) \<Rightarrow>
          Inr (ion_beam_seq
                \<lparr> NumberOfRangeShifters := Some (self_NumberOfRangeShifters self),
                  RangeShifterSequence := Some [rs_seq],
                  IonControlPointSequence := Some
                    (cp \<lparr> SnoutPosition := Some (self_SnoutPosition self),
                          RangeShifterSettingsSequence := Some [rs_set_seq] \<rparr> # cps) \<rparr>))"

text \<open>
  Lines 111-113: the first step of the modifying loop body. The right-hand side of line
  113 is the bare name \<^verbatim>\<open>RangeShifterID\<close>, which is bound nowhere (not in the method,
  not in the module, not by \<^verbatim>\<open>from pydicom import *\<close>); Python evaluates the right-hand
  side of an assignment first, so the line raises \<^verbatim>\<open>NameError\<close> whenever it is reached.
\<close>

definition modify_id :: "RangeShifter \<Rightarrow> ion_beam \<Rightarrow> error + ion_beam" where
  "modify_id self ion_beam_seq = (case self_RangeShifterID self of
       None \<Rightarrow> Inl (no_attribute ''RangeShifter'' ''RangeShifterID'')
     | Some rsid \<Rightarrow>
         if py_truthy (PStr rsid) then
           (case RangeShifterSequence ion_beam_seq of
              None \<Rightarrow> Inl (no_attribute ''Dataset'' ''RangeShifterSequence'')
            | Some seq \<Rightarrow> Inl (NameError (''name '' @ quoted ''RangeShifterID'' @ '' is not defined'')))
         else Inr ion_beam_seq)"

text \<open>Lines 114-117: the second step of the modifying loop body.\<close>

definition modify_snout :: "RangeShifter \<Rightarrow> ion_beam \<Rightarrow> error + ion_beam" where
  "modify_snout self ion_beam_seq =
     (if py_truthy (self_SnoutPosition self) then
        (case IonControlPointSequence ion_beam_seq of
           None \<Rightarrow> Inl (no_attribute ''Dataset'' ''IonControlPointSequence'')
         | Some [] \<Rightarrow> Inl (IndexError ''list index out of range'')
         | Some (cp # cps) \<Rightarrow>
             (case RangeShifterSettingsSequence cp of
                None \<Rightarrow> Inl (no_attribute ''Dataset'' ''RangeShifterSettingsSequence'')
              | Some settings \<Rightarrow>
                  (case self_IsocentertoRangeShifterDistance self of
                     None \<Rightarrow> Inl (no_attribute ''RangeShifter'' ''IsocentertoRangeShifterDistance'')
                   | Some d \<Rightarrow>
                       (case settings of
                          [] \<Rightarrow> Inl (IndexError ''list index out of range'')
                        | st # sts \<Rightarrow>
                            Inr (ion_beam_seq \<lparr> IonControlPointSequence := Some
                              (cp \<lparr> SnoutPosition := Some (self_SnoutPosition self),
                                    RangeShifterSettingsSequence := Some
                                      (st \<lparr> IsocenterToRangeShifterDistance := d \<rparr> # sts) \<rparr>
                               # cps) \<rparr>)))))
      else Inr ion_beam_seq)"

definition modify_beam :: "RangeShifter \<Rightarrow> ion_beam \<Rightarrow> error + ion_beam" where
  "modify_beam self ion_beam_seq = (case modify_id self ion_beam_seq of
       Inl e \<Rightarrow> Inl e
     | Inr b \<Rightarrow> modify_snout self b)"

text \<open>Lines 87-117: the two branches, on the document read from the input path.\<close>

definition edit_beams :: "RangeShifter \<Rightarrow> Dataset \<Rightarrow> error + Dataset" where
  "edit_beams self ds =
     (if self_add_rangeshifter self then
        (case new_rs_seq self of Inl e \<Rightarrow> Inl e | Inr rs_seq \<Rightarrow>
        (case new_rs_set_seq self of Inl e \<Rightarrow> Inl e | Inr rs_set_seq \<Rightarrow>
        (case IonBeamSequence ds of
           None \<Rightarrow> Inl (no_attribute ''FileDataset'' ''IonBeamSequence'')
         | Some beams \<Rightarrow>
             (case for_each (add_beam self rs_seq rs_set_seq) beams of
                Inl e \<Rightarrow> Inl e
              | Inr beams' \<Rightarrow> Inr (ds \<lparr> IonBeamSequence := Some beams' \<rparr>)))))
      else
        (case IonBeamSequence ds of
           None \<Rightarrow> Inl (no_attribute ''FileDataset'' ''IonBeamSequence'')
         | Some beams \<Rightarrow>
             (case for_each (modify_beam self) beams of
                Inl e \<Rightarrow> Inl e
              | Inr beams' \<Rightarrow> Inr (ds \<lparr> IonBeamSequence := Some beams' \<rparr>))))"

text \<open>Line 122: \<^verbatim>\<open>uid[0:2]+'4'+uid[3:]\<close>.\<close>

definition new_uid :: "string \<Rightarrow> string" where
  "new_uid uid = take 2 uid @ ''4'' @ drop 3 uid"

text \<open>
  Lines 85-124. The document is a local variable until the last line stores it in
  \<^verbatim>\<open>self.ds\<close>: when anything before raises, the object is as it was.
\<close>

definition add :: "RangeShifter \<Rightarrow> world \<Rightarrow> error + (RangeShifter \<times> world)" where
  "add self w = (case dcmread w (self_infile self) of Inl e \<Rightarrow> Inl e | Inr ds \<Rightarrow>
     (case edit_beams self ds of Inl e \<Rightarrow> Inl e | Inr ds1 \<Rightarrow>
     (case SOPInstanceUID ds1 of
        None \<Rightarrow> Inl (no_attribute ''FileDataset'' ''SOPInstanceUID'')
      | Some uid \<Rightarrow>
          Inr (self \<lparr> self_ds := Some (ds1 \<lparr> RTPlanLabel := Some (self_RTPlanLabel self),
                                            SOPInstanceUID := Some (new_uid uid) \<rparr>) \<rparr>,
               w \<lparr> stdout := stdout w @
                     [''Modified Plan File: '' @ self_outfile self @ '', Plan ID: ''
                        @ self_RTPlanLabel self @ '', UID: '' @ new_uid uid] \<rparr>))))"

subsection \<open>\<^verbatim>\<open>save\<close>\<close>

text \<open>Lines 131-132: \<^verbatim>\<open>save_as\<close> writes the document, over any file already there.\<close>

definition save :: "RangeShifter \<Rightarrow> world \<Rightarrow> error + world" where
  "save self w = (case self_ds self of
       None \<Rightarrow> Inl (no_attribute ''RangeShifter'' ''ds'')
     | Some ds \<Rightarrow> Inr (w \<lparr> files := (files w)(self_outfile self \<mapsto> ds) \<rparr>))"

section \<open>A plan used in the examples\<close>

text \<open>
  A plan with two beams: the first has no range shifter yet, the second has one device
  block and one settings block on its first control point.
\<close>

definition bare_beam :: ion_beam where
  "bare_beam =
     \<lparr> NumberOfRangeShifters = Some 0,
       RangeShifterSequence = None,
       IonControlPointSequence = Some
         [\<lparr> SnoutPosition = None, RangeShifterSettingsSequence = None \<rparr>,
          \<lparr> SnoutPosition = None, RangeShifterSettingsSequence = None \<rparr>] \<rparr>"

definition shifted_beam :: ion_beam where
  "shifted_beam =
     \<lparr> NumberOfRangeShifters = Some 1,
       RangeShifterSequence = Some
         [\<lparr> RangeShifterNumber = 1, RangeShifterID = ''RS=2cm'',
            RangeShifterType = ''BINARY'' \<rparr>],
       IonControlPointSequence = Some
         [\<lparr> SnoutPosition = Some (PFloat (Fin 100.0)),
            RangeShifterSettingsSequence = Some
              [\<lparr> RangeShifterSetting = ''IN'',
                 IsocenterToRangeShifterDistance = Fin 140.0,
                 RangeShifterWaterEquivalentThickness = Fin 23.0,
                 ReferencedRangeShifterNumber = 1 \<rparr>] \<rparr>,
          \<lparr> SnoutPosition = None, RangeShifterSettingsSequence = None \<rparr>] \<rparr>"

definition example_plan :: Dataset where
  "example_plan =
     \<lparr> RTPlanLabel = Some ''Plan0'',
       SOPInstanceUID = Some ''1.2.840.99999'',
       IonBeamSequence = Some [bare_beam, shifted_beam] \<rparr>"

definition shifted_plan :: Dataset where
  "shifted_plan =
     \<lparr> RTPlanLabel = Some ''Plan0'',
       SOPInstanceUID = Some ''1.2.840.99999'',
       IonBeamSequence = Some [shifted_beam, shifted_beam] \<rparr>"

definition example_world :: world where
  "example_world = \<lparr> files = [''plan.dcm'' \<mapsto> example_plan, ''shifted.dcm'' \<mapsto> shifted_plan],
                      stdout = [] \<rparr>"

text \<open>
  The object that \<^verbatim>\<open>RangeShifter("plan.dcm", "Plan1", 250.0, 3)\<close> constructs (adding), and
  the one that \<^verbatim>\<open>RangeShifter("shifted.dcm", "Plan1", 250.0, 3, add_rangeshifter=False)\<close>
  constructs (modifying).
\<close>

definition adding_editor :: RangeShifter where
  "adding_editor =
     \<lparr> self_RangeShifterID = Some ''RS=3cm'',
       self_outfile = ''plan_RS3_Snout250.0.dcm'',
       self_IsocentertoRangeShifterDistance = Some (Fin 290.0),
       self_infile = ''plan.dcm'',
       self_RTPlanLabel = ''Plan1'',
       self_SnoutPosition = PFloat (Fin 250.0),
       self_add_rangeshifter = True,
       self_RangeShifterNumber = 1,
       self_ReferencedRangeShifterNumber = 1,
       self_RangeShifterType = ''BINARY'',
       self_RangeShifterSetting = ''IN'',
       self_NumberOfRangeShifters = 1,
       self_RangeShifterWaterEquivalentThickness = Fin 23.0,
       self_ds = None \<rparr>"

definition modifying_editor :: RangeShifter where
  "modifying_editor = adding_editor
     \<lparr> self_outfile := ''shifted_RS3_Snout250.0.dcm'',
       self_infile := ''shifted.dcm'',
       self_add_rangeshifter := False \<rparr>"

text \<open>
  The state a modifying object would have with a thickness of 3 and no snout position. The
  constructor never returns it (it raises on the absent snout position); it serves to
  run \<^verbatim>\<open>add\<close> on the request all the same.
\<close>

definition thickness_only_editor :: RangeShifter where
  "thickness_only_editor = modifying_editor
     \<lparr> self_outfile := ''shifted_RS3_SnoutNone.dcm'',
       self_IsocentertoRangeShifterDistance := None,
       self_SnoutPosition := PNone \<rparr>"

section \<open>What the adding branch leaves in a beam\<close>

text \<open>
  The beam has exactly one device block, with the given identifier; its first control
  point has the given snout position and exactly one settings block, with the given
  isocenter distance.
\<close>

definition beam_has_shifter :: "pyval \<Rightarrow> string \<Rightarrow> pyfloat \<Rightarrow> ion_beam \<Rightarrow> bool" where
  "beam_has_shifter sn rsid d b =
     (case (RangeShifterSequence b, IonControlPointSequence b) of
        (Some [dev], Some (cp # cps)) \<Rightarrow>
          RangeShifterID dev = rsid \<and> SnoutPosition cp = Some sn \<and>
          (case RangeShifterSettingsSequence cp of
             Some [st] \<Rightarrow> IsocenterToRangeShifterDistance st = d
           | _ \<Rightarrow> False)
      | _ \<Rightarrow> False)"

section \<open>Facts about rounding\<close>

lemma round_half_even_of_int [simp]: "round_half_even (of_int n) = n"
  by (simp add: round_half_even_def)

lemma round_half_even_bounds: "\<bar>of_int (round_half_even q) - q\<bar> \<le> 1"
  unfolding round_half_even_def by (auto simp: abs_le_iff) linarith+

lemma powr_binade:
  fixes k :: nat
  assumes lo: "2 ^ k \<le> \<bar>x::real\<bar>" and hi: "\<bar>x\<bar> < 2 ^ (k + 1)"
  shows "(2::real) powr real_of_int (int k) \<le> \<bar>x\<bar> \<and> \<bar>x\<bar> < 2 powr real_of_int (int k + 1)"
proof -
  have "(2::real) powr real (Suc k) = 2 ^ Suc k"
    by (rule powr_realpow) simp
  moreover have "real_of_int (int k + 1) = real (Suc k)"
    by simp
  ultimately have 1: "(2::real) powr real_of_int (int k + 1) = 2 ^ (k + 1)"
    by (simp only: Suc_eq_plus1)
  have "(2::real) powr real k = 2 ^ k"
    by (rule powr_realpow) simp
  moreover have "real_of_int (int k) = real k"
    by simp
  ultimately have 2: "(2::real) powr real_of_int (int k) = 2 ^ k"
    by (simp only:)
  show ?thesis unfolding 1 2 using lo hi by blast
qed

lemma floor_log2_binade:
  fixes k :: nat
  assumes lo: "2 ^ k \<le> \<bar>x::real\<bar>" and hi: "\<bar>x\<bar> < 2 ^ (k + 1)" and pos: "0 < \<bar>x\<bar>"
  shows "\<lfloor>log 2 \<bar>x\<bar>\<rfloor> = int k"
proof -
  have "(\<lfloor>log 2 \<bar>x\<bar>\<rfloor> = int k) =
       (2 powr real_of_int (int k) \<le> \<bar>x\<bar> \<and> \<bar>x\<bar> < 2 powr real_of_int (int k + 1))"
    by (rule floor_log_eq_powr_iff[OF pos]) simp
  with powr_binade[OF lo hi] show ?thesis by blast
qed

lemma ulp_binade:
  fixes k :: nat
  assumes k: "k \<le> 52"
  shows "(2::real) powr of_int (max (int k) (- 1022) - 52) = 1 / 2 ^ (52 - k)"
proof -
  have "max (int k) (- 1022) - 52 = - int (52 - k)"
    using k by simp
  then have "real_of_int (max (int k) (- 1022) - 52) = - real (52 - k)"
    by (simp only: of_int_minus of_int_of_nat_eq)
  then have "(2::real) powr of_int (max (int k) (- 1022) - 52) = 2 powr (- real (52 - k))"
    by (simp only:)
  also have "\<dots> = 1 / 2 powr real (52 - k)"
    by (rule powr_minus_divide)
  also have "(2::real) powr real (52 - k) = 2 ^ (52 - k)"
    by (rule powr_realpow) simp
  finally show ?thesis .
qed

lemma round_double_binade:
  fixes k :: nat
  assumes lo: "2 ^ k \<le> \<bar>x\<bar>" and hi: "\<bar>x\<bar> < 2 ^ (k + 1)" and k: "k \<le> 52"
  shows "round_double x = Fin (of_int (round_half_even (x * 2 ^ (52 - k))) / 2 ^ (52 - k))"
proof -
  have nz: "x \<noteq> 0"
  proof
    assume "x = 0"
    with lo have "(2::real) ^ k \<le> 0" by simp
    moreover have "(0::real) < 2 ^ k" by simp
    ultimately show False by linarith
  qed
  then have pos: "0 < \<bar>x\<bar>"
    by simp
  have e: "\<lfloor>log 2 \<bar>x\<bar>\<rfloor> = int k"
    by (rule floor_log2_binade[OF lo hi pos])
  have ulp: "(2::real) powr of_int (max \<lfloor>log 2 \<bar>x\<bar>\<rfloor> (- 1022) - 52) = 1 / 2 ^ (52 - k)"
    unfolding e by (rule ulp_binade[OF k])
  let ?r = "round_half_even (x * 2 ^ (52 - k))"
  let ?y = "of_int ?r / (2::real) ^ (52 - k)"
  have "\<bar>of_int ?r - x * 2 ^ (52 - k)\<bar> \<le> 1"
    by (rule round_half_even_bounds)
  then have "\<bar>of_int ?r\<bar> \<le> \<bar>x * 2 ^ (52 - k)\<bar> + 1"
    by linarith
  also have "\<bar>x * 2 ^ (52 - k)\<bar> = \<bar>x\<bar> * 2 ^ (52 - k)"
    by (simp add: abs_mult)
  also have "\<dots> < 2 ^ (k + 1) * 2 ^ (52 - k)"
    using hi by simp
  also have "(2::real) ^ (k + 1) * 2 ^ (52 - k) = 2 ^ (k + 1 + (52 - k))"
    by (rule power_add[symmetric])
  also have "k + 1 + (52 - k) = 53"
    using k by simp
  finally have r: "\<bar>real_of_int ?r\<bar> < 2 ^ 53 + 1"
    by simp
  have one: "(1::real) \<le> 2 ^ (52 - k)"
    by (rule one_le_power) simp
  have "\<bar>?y\<bar> = \<bar>real_of_int ?r\<bar> / 2 ^ (52 - k)"
    by (simp add: abs_divide)
  also have "\<dots> \<le> \<bar>real_of_int ?r\<bar> / 1"
    by (rule divide_left_mono) (simp_all add: one)
  also have "\<bar>real_of_int ?r\<bar> / 1 = \<bar>real_of_int ?r\<bar>"
    by simp
  also have "\<dots> < 2 ^ 53 + 1"
    by (rule r)
  also have "(2::real) ^ 53 + 1 \<le> 2 ^ 54"
    by simp
  also have "(2::real) ^ 54 \<le> double_overflow"
    unfolding double_overflow_def by (rule power_increasing) simp_all
  finally have small: "\<not> double_overflow \<le> \<bar>?y\<bar>"
    by simp
  have "round_double x =
      (let ulp = 1 / 2 ^ (52 - k); y = of_int (round_half_even (x / ulp)) * ulp
       in if double_overflow \<le> \<bar>y\<bar> then (if 0 < x then PosInf else NegInf) else Fin y)"
    unfolding round_double_def ulp using nz by (simp only: if_False)
  also have "\<dots> = (if double_overflow \<le> \<bar>?y\<bar> then (if 0 < x then PosInf else NegInf) else Fin ?y)"
    by (simp only: Let_def divide_divide_eq_right mult_1 times_divide_eq_right mult_1_right div_by_1)
  also have "\<dots> = Fin ?y"
    using small by (simp only: if_False)
  finally show ?thesis .
qed

lemma round_double_of_int:
  assumes "\<bar>n\<bar> < 2 ^ 53"
  shows "round_double (of_int n) = Fin (of_int n)"
proof (cases "n = 0")
  case True
  then show ?thesis by (simp add: round_double_def)
next
  case False
  then have "1 \<le> nat \<bar>n\<bar>" by simp
  from ex_power_ivl1[OF _ this, of 2] obtain k where
    k: "2 ^ k \<le> nat \<bar>n\<bar>" "nat \<bar>n\<bar> < 2 ^ (k + 1)" by auto
  have m: "real (nat \<bar>n\<bar>) = \<bar>real_of_int n\<bar>" by simp
  have "real (2 ^ k) \<le> real (nat \<bar>n\<bar>)"
    using k(1) by (simp only: of_nat_le_iff)
  then have lo: "(2::real) ^ k \<le> \<bar>of_int n\<bar>"
    unfolding m by simp
  have "real (nat \<bar>n\<bar>) < real (2 ^ (k + 1))"
    using k(2) by (simp only: of_nat_less_iff)
  then have hi: "\<bar>of_int n :: real\<bar> < 2 ^ (k + 1)"
    unfolding m by simp
  have "\<bar>real_of_int n\<bar> < 2 ^ 53"
    using assms by (metis of_int_abs of_int_less_iff of_int_numeral of_int_power)
  with lo have "(2::real) ^ k < 2 ^ 53" by linarith
  then have "k < 53"
    by (rule power_less_imp_less_exp[of "2::real", rotated]) simp
  then have k52: "k \<le> 52"
    by simp
  have "real_of_int n * 2 ^ (52 - k) = of_int (n * 2 ^ (52 - k))" by simp
  then have "round_half_even (real_of_int n * 2 ^ (52 - k)) = n * 2 ^ (52 - k)"
    by (simp only: round_half_even_of_int)
  then show ?thesis
    using round_double_binade[OF lo hi k52] by simp
qed

lemma round_double_numeral:
  "\<bar>numeral w :: int\<bar> < 2 ^ 53 \<Longrightarrow> round_double (numeral w) = Fin (numeral w)"
  using round_double_of_int[of "numeral w"] by simp

text \<open>The difference of the two radii is exact.\<close>

lemma radii_difference: "float_sub max_rs_rad max_snout_rad = Fin 40"
  by (simp add: float_sub_def max_rs_rad_def max_snout_rad_def round_double_numeral)



section \<open>Facts about the constructor\<close>

lemma init_InrD:
  assumes "init fr infile plan_id sn rs outfile a = Inr self"
  shows "check_infile infile = Inr (self_infile self)"
    and "check_range_shifter fr rs a = Inr (self_RangeShifterID self)"
    and "check_plan_id plan_id = Inr (self_RTPlanLabel self)"
    and "check_snout_position sn a = Inr ()"
    and "make_outfile fr (self_infile self) rs sn outfile = Inr (self_outfile self)"
    and "make_distance sn = Inr (self_IsocentertoRangeShifterDistance self)"
    and "self_SnoutPosition self = sn"
    and "self_add_rangeshifter self = a"
    and "self_ds self = None"
    and "self_RangeShifterNumber self = 1"
    and "self_ReferencedRangeShifterNumber self = 1"
    and "self_RangeShifterType self = ''BINARY''"
    and "self_RangeShifterSetting self = ''IN''"
    and "self_NumberOfRangeShifters self = 1"
    and "self_RangeShifterWaterEquivalentThickness self = Fin 23"
  using assms unfolding init_def by (auto split: sum.splits)

lemma init_InlD:
  assumes "init fr infile plan_id sn rs outfile a = Inl e"
  shows "check_infile infile = Inl e \<or> check_range_shifter fr rs a = Inl e \<or>
         check_plan_id plan_id = Inl e \<or> check_snout_position sn a = Inl e \<or>
         (\<exists>s. check_infile infile = Inr s \<and> make_outfile fr s rs sn outfile = Inl e) \<or>
         (check_snout_position sn a = Inr () \<and> make_distance sn = Inl e)"
  using assms unfolding init_def by (auto split: sum.splits)

lemma init_InrI:
  assumes "check_infile infile = Inr s"
    and "check_range_shifter fr rs a = Inr rsid"
    and "check_plan_id plan_id = Inr l"
    and "check_snout_position sn a = Inr ()"
    and "make_outfile fr s rs sn outfile = Inr out"
    and "make_distance sn = Inr d"
  shows "\<exists>self. init fr infile plan_id sn rs outfile a = Inr self \<and>
           self_RangeShifterID self = rsid \<and> self_IsocentertoRangeShifterDistance self = d
           \<and> self_RTPlanLabel self = l \<and> self_infile self = s \<and> self_outfile self = out"
  using assms unfolding init_def by simp

lemma check_infile_error: "check_infile infile = Inl e \<Longrightarrow> InvalidArgument e"
  unfolding check_infile_def by (auto split: pyval.splits if_splits)

lemma check_range_shifter_error: "check_range_shifter fr rs a = Inl e \<Longrightarrow> InvalidArgument e"
  unfolding check_range_shifter_def by (auto split: if_splits)

lemma check_plan_id_error: "check_plan_id plan_id = Inl e \<Longrightarrow> InvalidArgument e"
  unfolding check_plan_id_def by (auto split: pyval.splits)

lemma check_snout_position_error: "check_snout_position sn a = Inl e \<Longrightarrow> InvalidArgument e"
  unfolding check_snout_position_def py_or_def py_gt_def py_lt_def
  by (auto split: if_splits sum.splits option.splits)

lemma make_outfile_error: "make_outfile fr s rs sn outfile = Inl e \<Longrightarrow> InvalidArgument e"
  unfolding make_outfile_def by (auto split: pyval.splits)

text \<open>
  In either mode the snout check passes exactly for a number between 20 and 421 and for
  NaN, for which both comparisons of lines 49 and 51 are false.
\<close>

lemma check_snout_position_passes:
  "(check_snout_position sn a = Inr ()) =
     ((\<exists>p. num_of sn = Some (Fin p) \<and> 20 \<le> p \<and> p \<le> 421) \<or> sn = PFloat NaN)"
proof (cases sn)
  case (PFloat f)
  then show ?thesis
    unfolding check_snout_position_def py_or_def py_gt_def py_lt_def
    by (cases f) (auto split: if_splits)
qed (auto simp: check_snout_position_def py_or_def py_gt_def py_lt_def split: if_splits)

text \<open>What line 65 stores for an accepted snout position.\<close>

lemma make_distance_number:
  assumes "num_of sn = Some (Fin p)" "20 \<le> p" "p \<le> 421"
  shows "make_distance sn = Inr (Some (round_double (40 + p)))"
proof (cases sn)
  case (PInt n)
  with assms have n: "p = of_int n" "20 \<le> n" "n \<le> 421"
    by auto
  then have "\<bar>n\<bar> < 2 ^ 53"
    by simp
  then have "round_double (of_int n) = Fin (of_int n)"
    by (rule round_double_of_int)
  then show ?thesis
    using PInt n by (simp add: make_distance_def to_float_def radii_difference)
next
  case (PFloat f)
  with assms show ?thesis
    by (simp add: make_distance_def to_float_def radii_difference)
qed (use assms in \<open>auto split: if_splits\<close>)

lemma make_distance_NaN: "make_distance (PFloat NaN) = Inr (Some NaN)"
  by (simp add: make_distance_def to_float_def radii_difference)

lemma make_distance_checked:
  assumes "check_snout_position sn a = Inr ()"
  shows "\<exists>d. make_distance sn = Inr (Some d)"
  using assms make_distance_number make_distance_NaN
  unfolding check_snout_position_passes by blast

lemma init_error:
  assumes "init fr infile plan_id sn rs outfile a = Inl e"
  shows "InvalidArgument e"
proof -
  have "\<not> (check_snout_position sn a = Inr () \<and> make_distance sn = Inl e)"
    using make_distance_checked by fastforce
  with init_InlD[OF assms] show ?thesis
    using check_infile_error check_range_shifter_error check_plan_id_error
      check_snout_position_error make_outfile_error
    by blast
qed

lemma py_in_235:
  "py_in rs [PInt 2, PInt 3, PInt 5] =
     (num_of rs = Some (Fin 2) \<or> num_of rs = Some (Fin 3) \<or> num_of rs = Some (Fin 5))"
proof (cases rs)
  case (PFloat f)
  then show ?thesis
    unfolding py_in_def by (cases f) auto
qed (auto simp: py_in_def split: if_splits)

lemma str_int_digits: "str_int 2 = ''2''" "str_int 3 = ''3''" "str_int 5 = ''5''"
  by (simp_all add: str_int_def str_nat.simps)

lemma check_infile_plan: "check_infile (PStr ''plan.dcm'') = Inr ''plan.dcm''"
  by (simp add: check_infile_def last4_def)

lemma check_range_shifter_3: "check_range_shifter fr (PInt 3) a = Inr (Some ''RS=3cm'')"
  by (simp add: check_range_shifter_def py_in_def str_int_digits)

lemma check_range_shifter_add:
  "check_range_shifter fr rs True = Inr r \<Longrightarrow> \<exists>rsid. r = Some rsid"
  unfolding check_range_shifter_def by (auto split: if_splits)

lemma check_range_shifter_modify:
  "check_range_shifter fr rs False = Inr r \<Longrightarrow> r = None \<or> (\<exists>t. r = Some (''RS='' @ t))"
  unfolding check_range_shifter_def by (auto split: if_splits)

text \<open>Unfolding the constructor and \<^verbatim>\<open>add\<close> on concrete arguments.\<close>

lemmas init_eval = init_def check_infile_def check_range_shifter_def check_plan_id_def
  check_snout_position_def make_outfile_def make_distance_def to_float_def radii_difference
  round_double_numeral py_in_def py_or_def py_gt_def py_lt_def last4_def but_last4_def
  str_int_def str_nat.simps quoted_def repr_integral_def

lemmas editor_eval = adding_editor_def modifying_editor_def

lemmas add_eval = add_def dcmread_def edit_beams_def new_rs_seq_def new_rs_set_seq_def
  add_beam_def modify_beam_def modify_id_def modify_snout_def new_uid_def no_attribute_def
  quoted_def example_world_def example_plan_def shifted_plan_def bare_beam_def shifted_beam_def

lemma init_adding_editor:
  "init repr_integral (PStr ''plan.dcm'') (PStr ''Plan1'') (PFloat (Fin 250.0)) (PInt 3) PNone True =
     Inr adding_editor"
  by (simp add: init_eval editor_eval)

lemma init_modifying_editor:
  "init repr_integral (PStr ''shifted.dcm'') (PStr ''Plan1'') (PFloat (Fin 250.0)) (PInt 3) PNone False =
     Inr modifying_editor"
  by (simp add: init_eval editor_eval)

text \<open>
  The constructor accepts NaN as a snout position, in either mode, and stores NaN as the
  distance.
\<close>

lemma nan_snout_accepted:
  "\<exists>self. init fr (PStr ''plan.dcm'') (PStr ''Plan1'') (PFloat NaN) (PInt 3) PNone a = Inr self \<and>
     self_IsocentertoRangeShifterDistance self = Some NaN"
proof -
  have 3: "check_plan_id (PStr ''Plan1'') = Inr ''Plan1''"
    by (simp add: check_plan_id_def)
  have 4: "check_snout_position (PFloat NaN) a = Inr ()"
    unfolding check_snout_position_passes by simp
  have 5: "make_outfile fr ''plan.dcm'' (PInt 3) (PFloat NaN) PNone =
      Inr (but_last4 ''plan.dcm'' @ ''_RS'' @ py_str fr (PInt 3) @ ''_Snout''
             @ py_str fr (PFloat NaN) @ ''.dcm'')"
    by (simp add: make_outfile_def)
  from init_InrI[OF check_infile_plan check_range_shifter_3 3 4 5 make_distance_NaN]
  show ?thesis by auto
qed

section \<open>The constructor's checks\<close>




text \<open>
  When adding, with the other arguments valid, the int thickness values 2, 3 and 5 give
  the identifiers RS=2cm, RS=3cm and RS=5cm, and every thickness that is not numerically
  2, 3 or 5 (any other number, a missing thickness, a value of another type) makes the
  construction fail with an InvalidArgument error, which is the thickness
  \<^verbatim>\<open>ValueError\<close> as soon as the input path is valid.
\<close>

lemma int_thickness_accepted:
  "(n \<in> {2, 3, 5} \<and> check_infile infile = Inr s \<and> isinstance_str plan_id \<and>
      (\<exists>p. num_of sn = Some (Fin p) \<and> 20 \<le> p \<and> p \<le> 421) \<and>
      (outfile = PNone \<or> isinstance_str outfile) \<longrightarrow>
      (\<exists>self. init fr infile plan_id sn (PInt n) outfile True = Inr self \<and>
         self_RangeShifterID self =
           Some (if n = 2 then ''RS=2cm'' else if n = 3 then ''RS=3cm'' else ''RS=5cm'')))
   \<and> (num_of rs \<noteq> Some (Fin 2) \<and> num_of rs \<noteq> Some (Fin 3) \<and> num_of rs \<noteq> Some (Fin 5) \<longrightarrow>
        (\<exists>e. init fr infile plan_id sn rs outfile True = Inl e \<and> InvalidArgument e) \<and>
        (check_infile infile = Inr s \<longrightarrow> init fr infile plan_id sn rs outfile True =
           Inl (ValueError ''range_shifter must be int, either: 2, 3 or 5'')))"
proof (intro conjI impI)
  assume a: "n \<in> {2, 3, 5} \<and> check_infile infile = Inr s \<and> isinstance_str plan_id \<and>
      (\<exists>p. num_of sn = Some (Fin p) \<and> 20 \<le> p \<and> p \<le> 421) \<and>
      (outfile = PNone \<or> isinstance_str outfile)"
  then obtain p where p: "num_of sn = Some (Fin p)" "20 \<le> p" "p \<le> 421"
    by blast
  from a obtain l where l: "plan_id = PStr l"
    by (cases plan_id) auto
  let ?id = "if n = 2 then ''RS=2cm'' else if n = 3 then ''RS=3cm'' else ''RS=5cm''"
  have 1: "check_infile infile = Inr s"
    using a by simp
  have 2: "check_range_shifter fr (PInt n) True = Inr (Some ?id)"
    using a by (auto simp: check_range_shifter_def py_in_def str_int_digits)
  have 3: "check_plan_id plan_id = Inr l"
    using l by (simp add: check_plan_id_def)
  have 4: "check_snout_position sn True = Inr ()"
    unfolding check_snout_position_passes using p by blast
  have "\<exists>out. make_outfile fr s (PInt n) sn outfile = Inr out"
    using a by (cases outfile) (auto simp: make_outfile_def)
  then obtain out where 5: "make_outfile fr s (PInt n) sn outfile = Inr out" ..
  have 6: "make_distance sn = Inr (Some (round_double (40 + p)))"
    using p by (simp add: make_distance_number)
  from init_InrI[OF 1 2 3 4 5 6]
  show "\<exists>self. init fr infile plan_id sn (PInt n) outfile True = Inr self \<and>
         self_RangeShifterID self = Some ?id"
    by auto
next
  assume a: "num_of rs \<noteq> Some (Fin 2) \<and> num_of rs \<noteq> Some (Fin 3) \<and> num_of rs \<noteq> Some (Fin 5)"
  then have bad: "check_range_shifter fr rs True =
      Inl (ValueError ''range_shifter must be int, either: 2, 3 or 5'')"
    by (simp add: check_range_shifter_def py_in_235)
  show "\<exists>e. init fr infile plan_id sn rs outfile True = Inl e \<and> InvalidArgument e"
  proof (cases "init fr infile plan_id sn rs outfile True")
    case (Inl e)
    then show ?thesis using init_error by blast
  next
    case (Inr self)
    from init_InrD(2)[OF Inr] bad show ?thesis by simp
  qed
next
  assume a: "num_of rs \<noteq> Some (Fin 2) \<and> num_of rs \<noteq> Some (Fin 3) \<and> num_of rs \<noteq> Some (Fin 5)"
    and i: "check_infile infile = Inr s"
  from a have bad: "check_range_shifter fr rs True =
      Inl (ValueError ''range_shifter must be int, either: 2, 3 or 5'')"
    by (simp add: check_range_shifter_def py_in_235)
  show "init fr infile plan_id sn rs outfile True =
           Inl (ValueError ''range_shifter must be int, either: 2, 3 or 5'')"
    using i bad by (simp add: init_def)
qed

text \<open>
  C7. When adding, construction succeeds for the thickness values 2, 3 and 5 with the
  identifiers RS=2cm, RS=3cm and RS=5cm, and fails with an InvalidArgument error for every
  other numeric thickness and for a missing one. The code does not do this for a float
  thickness: line 37 tests \<^verbatim>\<open>range_shifter in [2,3,5]\<close>, which compares by value, so the
  float 2.0 is accepted although the message of line 40 says the thickness must be an
  int, and the identifier is built from the text of the float: RS=2.0cm, where the int
  2 gives RS=2cm.
\<close>

theorem float_thickness_accepted:
  "init repr_integral (PStr ''plan.dcm'') (PStr ''Plan1'') (PFloat (Fin 250.0)) (PFloat (Fin 2.0))
       PNone True
     = Inr (adding_editor \<lparr> self_RangeShifterID := Some ''RS=2.0cm'',
                            self_outfile := ''plan_RS2.0_Snout250.0.dcm'' \<rparr>)
   \<and> init repr_integral (PStr ''plan.dcm'') (PStr ''Plan1'') (PFloat (Fin 250.0)) (PInt 2) PNone True
     = Inr (adding_editor \<lparr> self_RangeShifterID := Some ''RS=2cm'',
                            self_outfile := ''plan_RS2_Snout250.0.dcm'' \<rparr>)"
  by (simp add: init_eval editor_eval)

text \<open>
  C8. In modify mode, constructing with an absent snout position is rejected by the branch
  of lines 51-52, the one that rejects an explicit out-of-range value, with an error whose
  message names the snout-position field. The code does not do this: the condition of
  line 51 compares the absent value with \<^verbatim>\<open>421.0\<close> before it tests it against \<^verbatim>\<open>None\<close>, so
  the comparison raises the interpreter's \<^verbatim>\<open>TypeError\<close>, whose message does not name the
  field, and the \<^verbatim>\<open>ValueError\<close> of line 52 is raised for an out-of-range number only.
\<close>

theorem modify_absent_snout_error:
  "init fr (PStr ''plan.dcm'') (PStr ''Plan1'') PNone PNone PNone False
     = Inl (TypeError (quoted ''>'' @ '' not supported between instances of ''
              @ quoted ''NoneType'' @ '' and '' @ quoted ''float''))
   \<and> \<not> sublist ''snout_position'' (quoted ''>'' @ '' not supported between instances of ''
              @ quoted ''NoneType'' @ '' and '' @ quoted ''float'')
   \<and> init fr (PStr ''plan.dcm'') (PStr ''Plan1'') (PFloat (Fin 500.0)) PNone PNone False
     = Inl (ValueError ''snout_position must be None or between 20.0 and 421.0'')"
proof (intro conjI)
  show "init fr (PStr ''plan.dcm'') (PStr ''Plan1'') PNone PNone PNone False
     = Inl (TypeError (quoted ''>'' @ '' not supported between instances of ''
              @ quoted ''NoneType'' @ '' and '' @ quoted ''float''))"
    by (simp add: init_eval)
  show "\<not> sublist ''snout_position'' (quoted ''>'' @ '' not supported between instances of ''
              @ quoted ''NoneType'' @ '' and '' @ quoted ''float'')"
    by code_simp
  show "init fr (PStr ''plan.dcm'') (PStr ''Plan1'') (PFloat (Fin 500.0)) PNone PNone False
     = Inl (ValueError ''snout_position must be None or between 20.0 and 421.0'')"
    by (simp add: init_eval)
qed

text \<open>
  C9 (amended). Construction fails with an InvalidArgument error whenever the plan label
  is not text, and the error is the plan-label \<^verbatim>\<open>TypeError\<close> as soon as the input path and
  the thickness are valid. The content of a text plan label is never inspected: when
  construction succeeds with one text label it succeeds with every other, the empty string
  included, and only the stored label differs.
\<close>

theorem plan_id_only_type_checked:
  "(\<not> isinstance_str plan_id \<longrightarrow>
      (\<exists>e. init fr infile plan_id sn rs outfile a = Inl e \<and> InvalidArgument e) \<and>
      (check_infile infile = Inr s \<and> check_range_shifter fr rs a = Inr r \<longrightarrow>
         init fr infile plan_id sn rs outfile a = Inl (TypeError ''plan_id must be a string'')))
   \<and> (init fr infile (PStr l) sn rs outfile a = Inr self \<longrightarrow>
        init fr infile (PStr l') sn rs outfile a = Inr (self \<lparr> self_RTPlanLabel := l' \<rparr>))"
proof (intro conjI impI)
  assume n: "\<not> isinstance_str plan_id"
  then have bad: "check_plan_id plan_id = Inl (TypeError ''plan_id must be a string'')"
    by (cases plan_id) (simp_all add: check_plan_id_def)
  show "\<exists>e. init fr infile plan_id sn rs outfile a = Inl e \<and> InvalidArgument e"
  proof (cases "init fr infile plan_id sn rs outfile a")
    case (Inl e)
    then show ?thesis using init_error by blast
  next
    case (Inr self)
    from init_InrD(3)[OF Inr] bad show ?thesis by simp
  qed
  assume "check_infile infile = Inr s \<and> check_range_shifter fr rs a = Inr r"
  with bad show "init fr infile plan_id sn rs outfile a = Inl (TypeError ''plan_id must be a string'')"
    by (simp add: init_def)
next
  assume "init fr infile (PStr l) sn rs outfile a = Inr self"
  then show "init fr infile (PStr l') sn rs outfile a = Inr (self \<lparr> self_RTPlanLabel := l' \<rparr>)"
    unfolding init_def check_plan_id_def by (auto split: sum.splits)
qed

theorem plan_id_only_type_checked_witness:
  "init repr_integral (PStr ''plan.dcm'') (PInt 7) (PFloat (Fin 250.0)) (PInt 3) PNone True =
      Inl (TypeError ''plan_id must be a string'')
   \<and> init repr_integral (PStr ''plan.dcm'') (PStr []) (PFloat (Fin 250.0)) (PInt 3) PNone True =
      Inr (adding_editor \<lparr> self_RTPlanLabel := [] \<rparr>)"
proof -
  have n: "\<not> isinstance_str (PInt 7)"
    by simp
  have c: "check_infile (PStr ''plan.dcm'') = Inr ''plan.dcm'' \<and>
      check_range_shifter repr_integral (PInt 3) True = Inr (Some ''RS=3cm'')"
    by (simp add: check_infile_plan check_range_shifter_def py_in_def str_int_digits)
  have "init repr_integral (PStr ''plan.dcm'') (PInt 7) (PFloat (Fin 250.0)) (PInt 3) PNone True =
      Inl (TypeError ''plan_id must be a string'')"
    using plan_id_only_type_checked [of "PInt 7" repr_integral "PStr ''plan.dcm''" "PFloat (Fin 250.0)"
        "PInt 3" PNone True "''plan.dcm''" "Some ''RS=3cm''"] n c
    by blast
  moreover
  have "init repr_integral (PStr ''plan.dcm'') (PStr []) (PFloat (Fin 250.0)) (PInt 3) PNone True =
      Inr (adding_editor \<lparr> self_RTPlanLabel := [] \<rparr>)"
    using plan_id_only_type_checked [of _ repr_integral "PStr ''plan.dcm''" "PFloat (Fin 250.0)"
        "PInt 3" PNone True _ _ "''Plan1''" adding_editor "[]"] init_adding_editor
    by blast
  ultimately show ?thesis by simp
qed

text \<open>
  C9 as stated fails: the empty plan label is text, and the constructor accepts it and
  stores it.
\<close>

theorem empty_plan_id_accepted_counterexample:
  "map_sum id self_RTPlanLabel
     (init repr_integral (PStr ''plan.dcm'') (PStr []) (PFloat (Fin 250.0)) (PInt 3) PNone True) = Inr []"
  by (simp add: init_eval)

section \<open>The edit\<close>

lemma for_each_Inr:
  assumes "\<And>x. x \<in> set xs \<Longrightarrow> \<exists>y. body x = Inr y \<and> P y"
  shows "\<exists>ys. for_each body xs = Inr ys \<and> length ys = length xs \<and> (\<forall>y\<in>set ys. P y)"
  using assms
proof (induction xs)
  case Nil
  then show ?case by simp
next
  case (Cons x xs)
  from Cons.prems obtain y where y: "body x = Inr y" "P y"
    by auto
  from Cons.IH Cons.prems obtain ys where
    ys: "for_each body xs = Inr ys" "length ys = length xs" "\<forall>y\<in>set ys. P y"
    by auto
  from y ys show ?case by simp
qed

lemma add_beam_Inr:
  assumes "IonControlPointSequence b = Some (cp # cps)"
  shows "\<exists>b'. add_beam self rs_seq rs_set_seq b = Inr b' \<and>
     beam_has_shifter (self_SnoutPosition self) (RangeShifterID rs_seq)
       (IsocenterToRangeShifterDistance rs_set_seq) b'"
  using assms by (simp add: add_beam_def beam_has_shifter_def)

text \<open>
  C1. In add mode, on a document with N ion-beam entries each of which has a first control
  point, the edit returns and leaves exactly N entries; every entry then has exactly one
  device block (with the computed identifier), its first control point has the requested
  snout position and exactly one settings block, and that block's isocenter distance is
  the isocenterToRangeShifterDistance that the constructor computed from the snout
  position.
\<close>

theorem add_mode_one_block_per_beam:
  assumes "init fr infile plan_id sn rs outfile True = Inr self"
    and "files w (self_infile self) = Some ds"
    and "IonBeamSequence ds = Some beams"
    and "\<forall>b\<in>set beams. \<exists>cp cps. IonControlPointSequence b = Some (cp # cps)"
    and "SOPInstanceUID ds = Some uid"
  shows "\<exists>self' w' ds' beams' rsid d.
     add self w = Inr (self', w') \<and> self_ds self' = Some ds' \<and>
     IonBeamSequence ds' = Some beams' \<and> length beams' = length beams \<and>
     self_RangeShifterID self = Some rsid \<and>
     self_IsocentertoRangeShifterDistance self = Some d \<and> make_distance sn = Inr (Some d) \<and>
     (\<forall>b'\<in>set beams'. beam_has_shifter sn rsid d b')"
proof -
  note i = init_InrD[OF assms(1)]
  from make_distance_checked[OF i(4)] i(6)
  obtain d where d: "self_IsocentertoRangeShifterDistance self = Some d"
      "make_distance sn = Inr (Some d)"
    by auto
  from check_range_shifter_add[OF i(2)]
  obtain rsid where rsid: "self_RangeShifterID self = Some rsid"
    by blast
  obtain rs_seq where rs_seq: "new_rs_seq self = Inr rs_seq" "RangeShifterID rs_seq = rsid"
    using rsid by (simp add: new_rs_seq_def)
  obtain rs_set_seq where rs_set_seq: "new_rs_set_seq self = Inr rs_set_seq"
      "IsocenterToRangeShifterDistance rs_set_seq = d"
    using d(1) by (simp add: new_rs_set_seq_def)
  have "\<exists>beams'. for_each (add_beam self rs_seq rs_set_seq) beams = Inr beams' \<and>
      length beams' = length beams \<and> (\<forall>b'\<in>set beams'. beam_has_shifter sn rsid d b')"
  proof (rule for_each_Inr)
    fix b assume "b \<in> set beams"
    with assms(4) obtain cp cps where "IonControlPointSequence b = Some (cp # cps)"
      by blast
    from add_beam_Inr[OF this, of self rs_seq rs_set_seq] rs_seq(2) rs_set_seq(2) i(7)
    show "\<exists>y. add_beam self rs_seq rs_set_seq b = Inr y \<and> beam_has_shifter sn rsid d y"
      by simp
  qed
  then obtain beams' where
    beams': "for_each (add_beam self rs_seq rs_set_seq) beams = Inr beams'"
      "length beams' = length beams" "\<forall>b'\<in>set beams'. beam_has_shifter sn rsid d b'"
    by blast
  have e: "edit_beams self ds = Inr (ds \<lparr> IonBeamSequence := Some beams' \<rparr>)"
    using i(8) rs_seq(1) rs_set_seq(1) assms(3) beams'(1) by (simp add: edit_beams_def)
  have "\<exists>self' w'. add self w = Inr (self', w') \<and>
      self_ds self' = Some (ds \<lparr> IonBeamSequence := Some beams',
         RTPlanLabel := Some (self_RTPlanLabel self), SOPInstanceUID := Some (new_uid uid) \<rparr>)"
    using assms(2,5) e by (simp add: add_def dcmread_def)
  then show ?thesis
    using beams'(2,3) rsid d by fastforce
qed

theorem add_mode_one_block_per_beam_witness:
  "\<exists>self' w' ds' beams'.
     add adding_editor example_world = Inr (self', w') \<and> self_ds self' = Some ds' \<and>
     IonBeamSequence ds' = Some beams' \<and> length beams' = 2 \<and>
     (\<forall>b'\<in>set beams'. beam_has_shifter (PFloat (Fin 250.0)) ''RS=3cm'' (Fin 290.0) b')"
proof -
  have 2: "files example_world (self_infile adding_editor) = Some example_plan"
    by (simp add: example_world_def editor_eval)
  have 3: "IonBeamSequence example_plan = Some [bare_beam, shifted_beam]"
    by (simp add: example_plan_def)
  have 4: "\<forall>b\<in>set [bare_beam, shifted_beam]. \<exists>cp cps. IonControlPointSequence b = Some (cp # cps)"
    by (simp add: bare_beam_def shifted_beam_def)
  have 5: "SOPInstanceUID example_plan = Some ''1.2.840.99999''"
    by (simp add: example_plan_def)
  have 6: "self_RangeShifterID adding_editor = Some ''RS=3cm''"
      "self_IsocentertoRangeShifterDistance adding_editor = Some (Fin 290.0)"
    by (simp_all add: editor_eval)
  from add_mode_one_block_per_beam [OF init_adding_editor 2 3 4 5] 6
  show ?thesis by fastforce
qed

text \<open>In modify mode the loop body raises on the first beam, whatever the arguments were.\<close>

lemma modify_id_raises:
  assumes "r = None \<or> (\<exists>t. r = Some (''RS='' @ t))" "self_RangeShifterID self = r"
  shows "\<exists>e. modify_id self b = Inl e"
  using assms unfolding modify_id_def by (auto split: option.splits)

lemma modify_mode_add_raises:
  assumes "init fr infile plan_id sn rs outfile False = Inr self"
    and "files w (self_infile self) = Some ds"
    and "IonBeamSequence ds = Some (b # bs)"
  shows "\<exists>e. add self w = Inl e"
proof -
  note i = init_InrD[OF assms(1)]
  from modify_id_raises[OF check_range_shifter_modify[OF i(2)] refl, of b]
  obtain e where "modify_id self b = Inl e"
    by blast
  then have "modify_beam self b = Inl e"
    by (simp add: modify_beam_def)
  then have "for_each (modify_beam self) (b # bs) = Inl e"
    by simp
  then have "edit_beams self ds = Inl e"
    using i(8) assms(3) by (simp add: edit_beams_def)
  then show ?thesis
    using assms(2) by (simp add: add_def dcmread_def)
qed

text \<open>
  C2. In modify mode with a thickness supplied and the snout position omitted, the edit
  overwrites the identifier of the first device block of every beam and leaves the snout
  position and the isocenter distance as they were. The code does not do this: the
  constructor raises on the absent snout position, so no such object exists; and on the
  state such an object would have, \<^verbatim>\<open>add\<close> raises \<^verbatim>\<open>NameError\<close> at line 113 on the first
  beam, before it writes anything.
\<close>

theorem modify_thickness_only_raises:
  "init fr (PStr ''shifted.dcm'') (PStr ''Plan1'') PNone (PInt 3) PNone False
     = Inl (TypeError (quoted ''>'' @ '' not supported between instances of ''
              @ quoted ''NoneType'' @ '' and '' @ quoted ''float''))
   \<and> add thickness_only_editor example_world
     = Inl (NameError (''name '' @ quoted ''RangeShifterID'' @ '' is not defined''))"
  by (simp add: init_eval add_eval editor_eval thickness_only_editor_def)

text \<open>
  C3. In modify mode with a snout position supplied, on a document whose beams each have
  a device block and a settings block, the edit overwrites the first control point's snout
  position and the first settings block's isocenter distance, and does not raise. The code
  does not do this: with a thickness supplied, line 113 raises \<^verbatim>\<open>NameError\<close> on the first
  beam; with the thickness omitted, line 111 reads the attribute \<^verbatim>\<open>RangeShifterID\<close>, which
  the constructor did not assign, and raises \<^verbatim>\<open>AttributeError\<close>.
\<close>

theorem modify_with_snout_raises:
  "init repr_integral (PStr ''shifted.dcm'') (PStr ''Plan1'') (PFloat (Fin 250.0)) (PInt 3) PNone False
     = Inr modifying_editor
   \<and> add modifying_editor example_world
     = Inl (NameError (''name '' @ quoted ''RangeShifterID'' @ '' is not defined''))
   \<and> (\<exists>self. init repr_integral (PStr ''shifted.dcm'') (PStr ''Plan1'') (PFloat (Fin 250.0)) PNone PNone False
                = Inr self
        \<and> add self example_world = Inl (no_attribute ''RangeShifter'' ''RangeShifterID''))"
proof (intro conjI)
  show "init repr_integral (PStr ''shifted.dcm'') (PStr ''Plan1'') (PFloat (Fin 250.0)) (PInt 3) PNone False
     = Inr modifying_editor"
    by (rule init_modifying_editor)
  show "add modifying_editor example_world
     = Inl (NameError (''name '' @ quoted ''RangeShifterID'' @ '' is not defined''))"
    by (simp add: add_eval editor_eval)
  show "\<exists>self. init repr_integral (PStr ''shifted.dcm'') (PStr ''Plan1'') (PFloat (Fin 250.0)) PNone PNone False
                = Inr self
        \<and> add self example_world = Inl (no_attribute ''RangeShifter'' ''RangeShifterID'')"
    by (simp add: init_eval add_eval)
qed

section \<open>Saving\<close>

text \<open>
  C10. In either mode, \<^verbatim>\<open>save\<close> on an object on which \<^verbatim>\<open>add\<close> has not been applied fails
  with an error and writes no file: the constructor leaves the attribute \<^verbatim>\<open>ds\<close>
  unassigned. The document exists once \<^verbatim>\<open>add\<close> has returned, and \<^verbatim>\<open>save\<close> then writes
  it to the output path.
\<close>

theorem save_before_add_fails:
  "(init fr infile plan_id sn rs outfile a = Inr self \<longrightarrow>
      self_ds self = None \<and> save self w = Inl (no_attribute ''RangeShifter'' ''ds''))
   \<and> (add self w = Inr (self', w') \<longrightarrow>
        (\<exists>ds. self_ds self' = Some ds \<and>
              save self' w' = Inr (w' \<lparr> files := (files w')(self_outfile self' \<mapsto> ds) \<rparr>)))"
proof (intro conjI impI)
  assume ok: "init fr infile plan_id sn rs outfile a = Inr self"
  from init_InrD(9)[OF ok] show "self_ds self = None" .
  then show "save self w = Inl (no_attribute ''RangeShifter'' ''ds'')"
    by (simp add: save_def)
next
  assume "add self w = Inr (self', w')"
  then obtain ds where "self_ds self' = Some ds"
    unfolding add_def by (auto split: sum.splits option.splits)
  then show "\<exists>ds. self_ds self' = Some ds \<and>
              save self' w' = Inr (w' \<lparr> files := (files w')(self_outfile self' \<mapsto> ds) \<rparr>)"
    by (simp add: save_def)
qed

theorem save_before_add_fails_witness:
  "save adding_editor example_world = Inl (no_attribute ''RangeShifter'' ''ds'')
   \<and> (\<exists>self' w' ds. add adding_editor example_world = Inr (self', w') \<and>
         self_ds self' = Some ds \<and>
         save self' w' = Inr (w' \<lparr> files := (files w')(''plan_RS3_Snout250.0.dcm'' \<mapsto> ds) \<rparr>))"
proof -
  obtain self' w' where a: "add adding_editor example_world = Inr (self', w')"
      "self_outfile self' = ''plan_RS3_Snout250.0.dcm''"
    by (auto simp: add_eval editor_eval)
  from save_before_add_fails [of repr_integral "PStr ''plan.dcm''" "PStr ''Plan1''"
      "PFloat (Fin 250.0)" "PInt 3" PNone True adding_editor example_world self' w']
    init_adding_editor a
  show ?thesis by auto
qed

section \<open>The identifier rewrite\<close>

lemma new_uid_update: "3 \<le> length uid \<Longrightarrow> new_uid uid = uid[2 := CHR ''4'']"
  unfolding new_uid_def by (simp add: upd_conv_take_nth_drop)

text \<open>
  C4 (amended). For every unique instance identifier of length at least 3, the rewritten
  identifier is the original with the character at index 2 replaced by the character 4:
  it has the same length, has 4 at index 2 and agrees with the original at every other
  index. In particular the identifier 1.2.840.99999 is rewritten to 1.4.840.99999.
\<close>

theorem new_uid_replaces_index_2:
  "(3 \<le> length uid \<longrightarrow>
      new_uid uid = uid[2 := CHR ''4''] \<and> length (new_uid uid) = length uid \<and>
      new_uid uid ! 2 = CHR ''4'' \<and> (\<forall>i. i \<noteq> 2 \<longrightarrow> new_uid uid ! i = uid ! i))
   \<and> new_uid ''1.2.840.99999'' = ''1.4.840.99999''"
proof -
  have example: "new_uid ''1.2.840.99999'' = ''1.4.840.99999''"
    by (simp add: new_uid_def)
  show ?thesis using example by (auto simp: new_uid_update)
qed

theorem new_uid_replaces_index_2_witness:
  "3 \<le> length ''2.25.7'' \<and> new_uid ''2.25.7'' = ''2.45.7''"
  using new_uid_replaces_index_2 [of "''2.25.7''"] by simp

text \<open>
  C4 as stated fails on its own example: index 2 of 1.2.840.99999 holds the digit 2, not
  the dot after it, so the result is not 1.24840.99999.
\<close>

theorem new_uid_example_counterexample:
  "new_uid ''1.2.840.99999'' \<noteq> ''1.24840.99999''"
  by (simp add: new_uid_def)

text \<open>
  C5 (amended). The rewritten identifier equals the original exactly when the original
  has at least 3 characters and its character at index 2 already is 4; for every other
  identifier the rewritten one differs from the original.
\<close>

theorem new_uid_same_iff:
  "(new_uid uid = uid) = (3 \<le> length uid \<and> uid ! 2 = CHR ''4'')"
proof (cases "3 \<le> length uid")
  case True
  then have "new_uid uid = uid[2 := CHR ''4'']"
    by (rule new_uid_update)
  moreover from True have "2 < length uid"
    by simp
  ultimately show ?thesis
    using True by (metis list_update_id nth_list_update_eq)
next
  case False
  then have "length (new_uid uid) \<noteq> length uid"
    by (auto simp: new_uid_def)
  with False show ?thesis
    by auto
qed

theorem new_uid_same_iff_witness:
  "\<not> (3 \<le> length ''1.2.840.99999'' \<and> ''1.2.840.99999'' ! 2 = CHR ''4'')
   \<and> new_uid ''1.2.840.99999'' \<noteq> ''1.2.840.99999''"
  using new_uid_same_iff [of "''1.2.840.99999''"] by simp

text \<open>
  C5 as stated fails: an identifier whose third character is 4 is rewritten to itself.
\<close>

theorem new_uid_fixed_point_counterexample:
  "\<not> new_uid ''0.4.0.127.0.7.1'' \<noteq> ''0.4.0.127.0.7.1''"
  by (simp add: new_uid_def)

end
